theory Spec2Isabelle
  imports Complex_Main "HOL-Library.AList" "HOL-Library.Stream"
begin

section \<open>Python values handled by the dataset\<close>

text \<open>
  The embedding follows \<^verbatim>\<open>muskit/train/dataset.py\<close>. Python floats are represented by
  the rational they denote (arithmetic on them is exact here; the rounding of IEEE
  arithmetic is not modelled). Strings are byte lists.
\<close>

datatype error =
    EmptyList                 \<comment> \<open>ValueError: 1 or more elements are required\<close>
  | Duplicated string         \<comment> \<open>RuntimeError: "name" is duplicated for data-key\<close>
  | NoSamples string          \<comment> \<open>RuntimeError: path has no samples\<close>
  | NotSupported string       \<comment> \<open>RuntimeError: Not supported: loader_type=...\<close>
  | BadRandInt string         \<comment> \<open>RuntimeError: e.g rand_int_3_10: but got ...\<close>
  | UnexpectedType            \<comment> \<open>RuntimeError: Unexpected type: ...\<close>
  | RateMismatch int int      \<comment> \<open>RuntimeError: Sampling rates are mismatched\<close>
  | MustBeArray               \<comment> \<open>TypeError: Must be ndarray, torch.Tensor, str or Number\<close>
  | NotConverted string       \<comment> \<open>RuntimeError: All values must be converted to np.ndarray\<close>
  | UnsupportedDtype          \<comment> \<open>NotImplementedError: Not supported dtype\<close>
  | AssertionError
  | ValueError
  | TypeError
  | KeyError
  | IndexError
  | UnboundLocalError
  | External string           \<comment> \<open>anything raised by a reader outside this file\<close>

datatype pynum = PyInt int | PyFloat rat

datatype dkind = KFloat | KInt | KOther   \<comment> \<open>\<^verbatim>\<open>dtype.kind\<close>: 'f', 'i', anything else\<close>

datatype cell = CInt int | CFloat rat | CStr string | CObj | CRow "cell list"

record ndarray =
  kind :: dkind
  dtype :: string
  cells :: "cell list"     \<comment> \<open>the entries along the leading dimension\<close>

datatype pyvalue =
    VArray ndarray          \<comment> \<open>np.ndarray\<close>
  | VTensor ndarray         \<comment> \<open>torch.Tensor\<close>
  | VStr string
  | VNum pynum              \<comment> \<open>numbers.Number\<close>
  | VTuple "pyvalue list"
  | VList "pyvalue list"
  | VOther                  \<comment> \<open>any other object\<close>

type_synonym data = "(string \<times> pyvalue) list"   \<comment> \<open>a dict, in insertion order\<close>

definition dict_get :: "(string \<times> 'v) list \<Rightarrow> string \<Rightarrow> error + 'v" where
  "dict_get d k = (case map_of d k of None \<Rightarrow> Inl KeyError | Some v \<Rightarrow> Inr v)"

definition dict_of :: "(string \<times> 'v) list \<Rightarrow> (string \<times> 'v) list" where
  \<comment> \<open>the dict holding the given items: a later item replaces the value of an equal key\<close>
  "dict_of kvs = fold (\<lambda>(k, v) d. AList.update k v d) kvs []"

section \<open>Loaders\<close>

datatype atom = AStr string | ANum pynum

datatype key =
    KUid string                 \<comment> \<open>\<^verbatim>\<open>loader[uid]\<close>\<close>
  | KTriple atom atom atom      \<comment> \<open>\<^verbatim>\<open>loader[(uid, pitch_aug_factor, time_aug_factor)]\<close>\<close>

text \<open>
  The readers of \<^verbatim>\<open>muskit.fileio\<close>, kaldiio and h5py are not part of this file: a
  reader is taken as given, by the ids it iterates over and what it returns for a key.
\<close>

record native =
  nkeys :: "string list"
  nget :: "key \<Rightarrow> error + pyvalue"

datatype loader =
    SoundAdapter native "string option"   \<comment> \<open>AdapterForSoundScpReader(loader, dtype)\<close>
  | MIDIAdapter native                    \<comment> \<open>AdapterForMIDIScpReader(loader)\<close>
  | LabelAdapter native                   \<comment> \<open>AdapterForLabelScpReader(loader)\<close>
  | Plain native                          \<comment> \<open>a reader used as it is\<close>

fun loader_native :: "loader \<Rightarrow> native" where
  "loader_native (SoundAdapter l d) = l"
| "loader_native (MIDIAdapter l) = l"
| "loader_native (LabelAdapter l) = l"
| "loader_native (Plain l) = l"

definition loader_len :: "loader \<Rightarrow> nat" where
  "loader_len l = length (nkeys (loader_native l))"

definition loader_iter :: "loader \<Rightarrow> string list" where
  "loader_iter l = nkeys (loader_native l)"

datatype reader =
    SoundScpReader | MIDIScpReader | read_label | kaldi_load_scp int | NpyScpReader
  | load_num_sequence_text string | read_2column_text | H5File
  | FloatRandomGenerateDataset | IntRandomGenerateDataset int int

datatype evaluated = EvFloat rat | EvList "pyvalue list" | EvOther

text \<open>What the code calls outside this file, taken as parameters.\<close>

record env =
  open_reader :: "reader \<Rightarrow> string \<Rightarrow> error + native"
  parse_size :: "string \<Rightarrow> error + rat"         \<comment> \<open>humanfriendly.parse_size\<close>
  py_eval :: "string \<Rightarrow> error + evaluated"        \<comment> \<open>eval(s)\<close>
  py_float :: "string \<Rightarrow> error + rat"             \<comment> \<open>float(s)\<close>
  py_int :: "string \<Rightarrow> int option"                \<comment> \<open>int(s), None for ValueError\<close>
  sizeof :: "data \<Rightarrow> nat"                         \<comment> \<open>SizedDict's size of a record\<close>

section \<open>The loader registry\<close>

datatype pattern = Lit string | RandIntPat   \<comment> \<open>a literal key, or rand_int_\d+_\d+\<close>

definition is_digit :: "char \<Rightarrow> bool" where
  "is_digit c = (c \<in> set ''0123456789'')"

fun re_match :: "pattern \<Rightarrow> string \<Rightarrow> bool" where
  \<comment> \<open>\<^verbatim>\<open>re.match\<close> anchors at the start only\<close>
  "re_match (Lit p) s = (take (length p) s = p)"
| "re_match RandIntPat s =
     (take 9 s = ''rand_int_'' \<and>
      (let r = drop 9 s in
       takeWhile is_digit r \<noteq> [] \<and>
       (case dropWhile is_digit r of
          [] \<Rightarrow> False
        | c # r2 \<Rightarrow> c = CHR ''_'' \<and> takeWhile is_digit r2 \<noteq> [])))"

fun split_on :: "char \<Rightarrow> string \<Rightarrow> string list" where
  "split_on c [] = [[]]"
| "split_on c (x # xs) =
     (if x = c then [] # split_on c xs
      else (case split_on c xs of [] \<Rightarrow> [[x]] | w # ws \<Rightarrow> (x # w) # ws))"

record kwargs =
  kw_float_dtype :: string
  kw_max_cache_fd :: int
  kw_loader_type :: string

definition lift_reader :: "(native \<Rightarrow> loader) \<Rightarrow> error + native \<Rightarrow> error + loader" where
  "lift_reader f r = (case r of Inl e \<Rightarrow> Inl e | Inr l \<Rightarrow> Inr (f l))"

definition sound_loader :: "env \<Rightarrow> string \<Rightarrow> kwargs \<Rightarrow> error + loader" where
  "sound_loader E path kw =
     lift_reader (\<lambda>l. SoundAdapter l (Some (kw_float_dtype kw))) (open_reader E SoundScpReader path)"

definition midi_loader :: "env \<Rightarrow> string \<Rightarrow> kwargs \<Rightarrow> error + loader" where
  "midi_loader E path kw = lift_reader MIDIAdapter (open_reader E MIDIScpReader path)"

definition label_loader :: "env \<Rightarrow> string \<Rightarrow> kwargs \<Rightarrow> error + loader" where
  "label_loader E path kw = lift_reader LabelAdapter (open_reader E read_label path)"

definition kaldi_loader :: "env \<Rightarrow> string \<Rightarrow> kwargs \<Rightarrow> error + loader" where
  \<comment> \<open>the registry passes max_cache_fd only, so float_dtype keeps its default None\<close>
  "kaldi_loader E path kw =
     lift_reader (\<lambda>l. SoundAdapter l None)
       (open_reader E (kaldi_load_scp (kw_max_cache_fd kw)) path)"

definition rand_int_loader :: "env \<Rightarrow> string \<Rightarrow> kwargs \<Rightarrow> error + loader" where
  "rand_int_loader E path kw =
     (case map (py_int E) (split_on (CHR ''_'') (drop 9 (kw_loader_type kw))) of
        [Some low, Some high] \<Rightarrow>
          lift_reader Plain (open_reader E (IntRandomGenerateDataset low high) path)
      | _ \<Rightarrow> Inl (BadRandInt (kw_loader_type kw)))"

definition plain_loader :: "reader \<Rightarrow> env \<Rightarrow> string \<Rightarrow> kwargs \<Rightarrow> error + loader" where
  "plain_loader r E path kw = lift_reader Plain (open_reader E r path)"

definition DATA_TYPES :: "(pattern \<times> (env \<Rightarrow> string \<Rightarrow> kwargs \<Rightarrow> error + loader)) list" where
  "DATA_TYPES =
     [(Lit ''sound'', sound_loader),
      (Lit ''midi'', midi_loader),
      (Lit ''duration'', label_loader),
      (Lit ''kaldi_ark'', kaldi_loader),
      (Lit ''npy'', plain_loader NpyScpReader),
      (Lit ''text_int'', plain_loader (load_num_sequence_text ''text_int'')),
      (Lit ''csv_int'', plain_loader (load_num_sequence_text ''csv_int'')),
      (Lit ''text_float'', plain_loader (load_num_sequence_text ''text_float'')),
      (Lit ''csv_float'', plain_loader (load_num_sequence_text ''csv_float'')),
      (Lit ''text'', plain_loader read_2column_text),
      (Lit ''hdf5'', plain_loader H5File),
      (Lit ''rand_float'', plain_loader FloatRandomGenerateDataset),
      (RandIntPat, rand_int_loader)]"

fun build_from ::
  "(pattern \<times> (env \<Rightarrow> string \<Rightarrow> kwargs \<Rightarrow> error + loader)) list \<Rightarrow>
     env \<Rightarrow> string \<Rightarrow> kwargs \<Rightarrow> error + loader" where
  "build_from [] E path kw = Inl (NotSupported (kw_loader_type kw))"
| "build_from ((pat, func) # rest) E path kw =
     (if re_match pat (kw_loader_type kw) then func E path kw
      else build_from rest E path kw)"

definition build_loader :: "env \<Rightarrow> string \<Rightarrow> int \<Rightarrow> string \<Rightarrow> string \<Rightarrow> error + loader" where
  \<comment> \<open>\<^verbatim>\<open>MuskitDataset._build_loader\<close>: the first entry whose key matches decides\<close>
  "build_loader E fdt fd path loader_type =
     build_from DATA_TYPES E path
       \<lparr>kw_float_dtype = fdt, kw_max_cache_fd = fd, kw_loader_type = loader_type\<rparr>"

section \<open>Construction\<close>

datatype cache_size = SizeNum rat | SizeStr string

record init_args =
  path_name_type_list :: "(string \<times> string \<times> string) list"
  a_preprocess :: "(string \<Rightarrow> data \<Rightarrow> pynum \<Rightarrow> error + data) option"
  a_float_dtype :: string
  a_int_dtype :: string
  a_max_cache_size :: cache_size
  a_max_cache_fd :: int
  a_not_align :: "string list"
  a_mode :: string
  a_pitch_aug_min :: int
  a_pitch_aug_max :: int
  a_pitch_mean :: string
  a_time_aug_min :: rat
  a_time_aug_max :: rat
  a_random_crop :: bool
  a_mask_aug :: bool

record dataset =
  loader_dict :: "(string \<times> loader) list"
  debug_info :: "(string \<times> string \<times> string) list"
  preprocess :: "(string \<Rightarrow> data \<Rightarrow> pynum \<Rightarrow> error + data) option"
  float_dtype :: string
  int_dtype :: string
  max_cache_fd :: int
  max_cache_size :: rat
  not_align :: "string list"
  mode :: string
  pitch_aug_min :: int
  pitch_aug_max :: int
  pitch_mean :: string
  time_aug_min :: rat
  time_aug_max :: rat
  random_crop :: bool
  mask_aug :: bool

fun build_all ::
  "env \<Rightarrow> string \<Rightarrow> int \<Rightarrow> (string \<times> string \<times> string) list \<Rightarrow>
     (string \<times> loader) list \<Rightarrow> (string \<times> string \<times> string) list \<Rightarrow>
     error + ((string \<times> loader) list \<times> (string \<times> string \<times> string) list)" where
  \<comment> \<open>the loop over path_name_type_list in \<^verbatim>\<open>__init__\<close>\<close>
  "build_all E fdt fd [] ld di = Inr (ld, di)"
| "build_all E fdt fd ((path, name, ty) # rest) ld di =
     (if name \<in> set (map fst ld) then Inl (Duplicated name)
      else (case build_loader E fdt fd path ty of
              Inl e \<Rightarrow> Inl e
            | Inr l \<Rightarrow>
                if loader_len l = 0 then Inl (NoSamples path)
                else build_all E fdt fd rest
                       (AList.update name l ld) (AList.update name (path, ty) di)))"

definition resolve_cache_size :: "env \<Rightarrow> cache_size \<Rightarrow> error + rat" where
  "resolve_cache_size E m = (case m of SizeNum q \<Rightarrow> Inr q | SizeStr s \<Rightarrow> parse_size E s)"

definition init :: "env \<Rightarrow> init_args \<Rightarrow> error + dataset" where
  "init E a =
     (if path_name_type_list a = [] then Inl EmptyList
      else
        (case build_all E (a_float_dtype a) (a_max_cache_fd a) (path_name_type_list a) [] [] of
           Inl e \<Rightarrow> Inl e
         | Inr (ld, di) \<Rightarrow>
             (case resolve_cache_size E (a_max_cache_size a) of
                Inl e \<Rightarrow> Inl e
              | Inr mcs \<Rightarrow>
                  if \<not> a_pitch_aug_min a \<le> a_pitch_aug_max a then Inl AssertionError
                  else if \<not> a_time_aug_min a \<le> a_time_aug_max a then Inl AssertionError
                  else if a_pitch_mean a \<noteq> ''None'' \<and> a_pitch_aug_min a \<noteq> 0
                    then Inl AssertionError
                  else if a_pitch_mean a \<noteq> ''None'' \<and> a_pitch_aug_max a \<noteq> 0
                    then Inl AssertionError
                  else Inr \<lparr>loader_dict = ld, debug_info = di,
                            preprocess = a_preprocess a,
                            float_dtype = a_float_dtype a, int_dtype = a_int_dtype a,
                            max_cache_fd = a_max_cache_fd a, max_cache_size = mcs,
                            not_align = a_not_align a, mode = a_mode a,
                            pitch_aug_min = a_pitch_aug_min a,
                            pitch_aug_max = a_pitch_aug_max a,
                            pitch_mean = a_pitch_mean a,
                            time_aug_min = a_time_aug_min a,
                            time_aug_max = a_time_aug_max a,
                            random_crop = a_random_crop a, mask_aug = a_mask_aug a\<rparr>)))"

definition has_name :: "dataset \<Rightarrow> string \<Rightarrow> bool" where
  "has_name ds name = (name \<in> set (map fst (loader_dict ds)))"

definition names :: "dataset \<Rightarrow> string list" where
  "names ds = map fst (loader_dict ds)"

definition iter_dataset :: "dataset \<Rightarrow> error + string list" where
  \<comment> \<open>\<^verbatim>\<open>__iter__\<close>: the ids of the first loader\<close>
  "iter_dataset ds =
     (case loader_dict ds of [] \<Rightarrow> Inl (External ''StopIteration'') | (n, l) # _ \<Rightarrow> Inr (loader_iter l))"

section \<open>Adapters\<close>

fun to_kind :: "dkind \<Rightarrow> cell \<Rightarrow> cell" where
  "to_kind KFloat (CInt i) = CFloat (of_int i)"
| "to_kind KInt (CFloat q) = CInt (if 0 \<le> q then \<lfloor>q\<rfloor> else \<lceil>q\<rceil>)"
| "to_kind k (CRow cs) = CRow (map (to_kind k) cs)"
| "to_kind k c = c"

definition astype :: "dkind \<Rightarrow> string \<Rightarrow> ndarray \<Rightarrow> ndarray" where
  \<comment> \<open>\<^verbatim>\<open>array.astype(name)\<close>, for a dtype \<open>name\<close> of kind \<open>k\<close>: same shape, entries
      converted to the kind (the loss of precision is not modelled)\<close>
  "astype k name a = \<lparr>kind = k, dtype = name, cells = map (to_kind k) (cells a)\<rparr>"

definition unpack3 :: "key \<Rightarrow> error + (atom \<times> atom \<times> atom)" where
  \<comment> \<open>\<^verbatim>\<open>key, pitch_aug_factor, time_aug_factor = key\<close>; a string unpacks to its characters\<close>
  "unpack3 k =
     (case k of
        KTriple a b c \<Rightarrow> Inr (a, b, c)
      | KUid s \<Rightarrow>
          if length s = 3 then Inr (AStr [s ! 0], AStr [s ! 1], AStr [s ! 2])
          else Inl ValueError)"

definition sound_getitem ::
  "native \<Rightarrow> string option \<Rightarrow> int option \<Rightarrow> key \<Rightarrow> (error + pyvalue) \<times> int option" where
  \<comment> \<open>\<^verbatim>\<open>AdapterForSoundScpReader.__getitem__\<close>; the third argument and the second
      result are \<^verbatim>\<open>self.rate\<close>\<close>
  "sound_getitem l dt rate k =
     (case unpack3 k of
        Inl e \<Rightarrow> (Inl e, rate)
      | Inr (u, p, t) \<Rightarrow>
          (case nget l (KTriple u p t) of
             Inl e \<Rightarrow> (Inl e, rate)
           | Inr (VTuple xs) \<Rightarrow>
               (case xs of
                  [VNum (PyInt r), VArray a] \<Rightarrow>
                    if rate \<noteq> None \<and> rate \<noteq> Some r
                    then (Inl (RateMismatch (the rate) r), rate)
                    else (Inr (VArray (case dt of None \<Rightarrow> a | Some d \<Rightarrow> astype KFloat d a)),
                          Some r)
                | [x, y] \<Rightarrow> (Inl UnexpectedType, rate)
                | _ \<Rightarrow> (Inl AssertionError, rate))
           | Inr (VList xs) \<Rightarrow> (Inr (VList xs), rate)
           | Inr (VArray a) \<Rightarrow>
               (Inr (VArray (case dt of None \<Rightarrow> a | Some d \<Rightarrow> astype KFloat d a)), rate)
           | Inr v \<Rightarrow> (Inl AssertionError, rate)))"

definition py_len :: "pyvalue \<Rightarrow> error + nat" where
  "py_len v =
     (case v of
        VArray a \<Rightarrow> Inr (length (cells a))
      | VTensor a \<Rightarrow> Inr (length (cells a))
      | VStr s \<Rightarrow> Inr (length s)
      | VTuple xs \<Rightarrow> Inr (length xs)
      | VList xs \<Rightarrow> Inr (length xs)
      | _ \<Rightarrow> Inl TypeError)"

definition cell_value :: "ndarray \<Rightarrow> cell \<Rightarrow> pyvalue" where
  \<comment> \<open>an entry of an array, as Python sees it\<close>
  "cell_value a c =
     (case c of
        CInt i \<Rightarrow> VNum (PyInt i)
      | CFloat q \<Rightarrow> VNum (PyFloat q)
      | CStr s \<Rightarrow> VStr s
      | CObj \<Rightarrow> VOther
      | CRow cs \<Rightarrow> VArray (a\<lparr>cells := cs\<rparr>))"

definition py_index :: "pyvalue \<Rightarrow> nat \<Rightarrow> error + pyvalue" where
  \<comment> \<open>\<^verbatim>\<open>v[i]\<close> for \<open>i \<ge> 0\<close>\<close>
  "py_index v i =
     (case v of
        VArray a \<Rightarrow> if i < length (cells a) then Inr (cell_value a (cells a ! i)) else Inl IndexError
      | VTensor a \<Rightarrow> if i < length (cells a) then Inr (cell_value a (cells a ! i)) else Inl IndexError
      | VStr s \<Rightarrow> if i < length s then Inr (VStr [s ! i]) else Inl IndexError
      | VTuple xs \<Rightarrow> if i < length xs then Inr (xs ! i) else Inl IndexError
      | VList xs \<Rightarrow> if i < length xs then Inr (xs ! i) else Inl IndexError
      | _ \<Rightarrow> Inl TypeError)"

definition midi_getitem :: "native \<Rightarrow> key \<Rightarrow> error + pyvalue" where
  \<comment> \<open>\<^verbatim>\<open>AdapterForMIDIScpReader.__getitem__\<close>\<close>
  "midi_getitem l k =
     (case unpack3 k of
        Inl e \<Rightarrow> Inl e
      | Inr (u, p, t) \<Rightarrow>
          (case nget l (KTriple u p t) of
             Inl e \<Rightarrow> Inl e
           | Inr retval \<Rightarrow>
               (case py_len retval of
                  Inl e \<Rightarrow> Inl e
                | Inr n \<Rightarrow>
                    if n \<noteq> 2 then Inl AssertionError
                    else (case (py_index retval 0, py_index retval 1) of
                            (Inr (VArray note_array), Inr (VArray tempo_array)) \<Rightarrow>
                              Inr (VTuple [VArray note_array, VArray tempo_array])
                          | _ \<Rightarrow> Inl UnexpectedType))))"

definition np_float32 :: "env \<Rightarrow> pyvalue \<Rightarrow> error + rat" where
  "np_float32 E v =
     (case v of
        VNum (PyInt i) \<Rightarrow> Inr (of_int i)
      | VNum (PyFloat q) \<Rightarrow> Inr q
      | VStr s \<Rightarrow> py_float E s
      | _ \<Rightarrow> Inl TypeError)"

definition label_row :: "env \<Rightarrow> pyvalue \<Rightarrow> error + (cell \<times> pyvalue)" where
  \<comment> \<open>one turn of the loop: \<^verbatim>\<open>retval[i][0]\<close>, \<^verbatim>\<open>retval[i][1]\<close>, \<^verbatim>\<open>retval[i][2]\<close>\<close>
  "label_row E row =
     (case py_index row 0 of
        Inl e \<Rightarrow> Inl e
      | Inr x0 \<Rightarrow>
     (case np_float32 E x0 of
        Inl e \<Rightarrow> Inl e
      | Inr start \<Rightarrow>
     (case py_index row 1 of
        Inl e \<Rightarrow> Inl e
      | Inr x1 \<Rightarrow>
     (case np_float32 E x1 of
        Inl e \<Rightarrow> Inl e
      | Inr stop \<Rightarrow>
     (case py_index row 2 of
        Inl e \<Rightarrow> Inl e
      | Inr phone \<Rightarrow> Inr (CRow [CFloat start, CFloat stop], phone))))))"

fun label_rows :: "env \<Rightarrow> pyvalue list \<Rightarrow> error + (cell list \<times> pyvalue list)" where
  "label_rows E [] = Inr ([], [])"
| "label_rows E (row # rows) =
     (case label_row E row of
        Inl e \<Rightarrow> Inl e
      | Inr (t, p) \<Rightarrow>
          (case label_rows E rows of
             Inl e \<Rightarrow> Inl e
           | Inr (ts, ps) \<Rightarrow> Inr (t # ts, p # ps)))"

definition label_getitem :: "env \<Rightarrow> native \<Rightarrow> key \<Rightarrow> error + pyvalue" where
  \<comment> \<open>\<^verbatim>\<open>AdapterForLabelScpReader.__getitem__\<close>\<close>
  "label_getitem E l k =
     (case nget l k of
        Inl e \<Rightarrow> Inl e
      | Inr (VList rows) \<Rightarrow>
          (case label_rows E rows of
             Inl e \<Rightarrow> Inl e
           | Inr (sample_time, sample_label) \<Rightarrow>
               Inr (VTuple [VArray \<lparr>kind = KFloat, dtype = ''float64'', cells = sample_time\<rparr>,
                            VList sample_label]))
      | Inr v \<Rightarrow> Inl AssertionError)"

fun loader_getitem ::
  "env \<Rightarrow> loader \<Rightarrow> int option \<Rightarrow> key \<Rightarrow> (error + pyvalue) \<times> int option" where
  "loader_getitem E (SoundAdapter l dt) rate k = sound_getitem l dt rate k"
| "loader_getitem E (MIDIAdapter l) rate k = (midi_getitem l k, rate)"
| "loader_getitem E (LabelAdapter l) rate k = (label_getitem E l k, rate)"
| "loader_getitem E (Plain l) rate k = (nget l k, rate)"

section \<open>Randomness\<close>

text \<open>
  The module \<^verbatim>\<open>random\<close> is a stream of natural numbers, one consumed by each draw; a
  draw from \<open>n\<close> choices takes the number modulo \<open>n\<close>.
\<close>

definition randint :: "int \<Rightarrow> int \<Rightarrow> nat stream \<Rightarrow> (error + int) \<times> nat stream" where
  \<comment> \<open>\<^verbatim>\<open>random.randint(a, b)\<close>: ValueError on an empty range\<close>
  "randint a b g =
     (if b < a then (Inl ValueError, g)
      else (Inr (a + int (shd g mod nat (b - a + 1))), stl g))"

definition sample1 :: "'a list \<Rightarrow> nat stream \<Rightarrow> (error + 'a) \<times> nat stream" where
  \<comment> \<open>\<^verbatim>\<open>random.sample(lst, 1)[0]\<close>: ValueError on an empty list\<close>
  "sample1 xs g =
     (if xs = [] then (Inl ValueError, g)
      else (Inr (xs ! (shd g mod length xs)), stl g))"

definition py_int_of :: "rat \<Rightarrow> int" where
  \<comment> \<open>\<^verbatim>\<open>int(x)\<close> of a float: towards zero\<close>
  "py_int_of q = (if 0 \<le> q then \<lfloor>q\<rfloor> else \<lceil>q\<rceil>)"

section \<open>The state of a dataset\<close>

text \<open>
  Modelled from the spec: \<^verbatim>\<open>muskit.utils.sized_dict.SizedDict\<close> is not among the sources.
  The spec describes a cache keyed by utterance id that tracks the cumulative size of its
  records and never evicts; storing a record adds its size.
\<close>

record sized_dict =
  entries :: "(string \<times> data) list"
  size_sd :: nat

definition sized_dict_empty :: sized_dict where
  "sized_dict_empty = \<lparr>entries = [], size_sd = 0\<rparr>"

definition sized_dict_set :: "env \<Rightarrow> sized_dict \<Rightarrow> string \<Rightarrow> data \<Rightarrow> sized_dict" where
  "sized_dict_set E c k v =
     \<lparr>entries = AList.update k v (entries c),
      size_sd = (case map_of (entries c) k of
                   None \<Rightarrow> size_sd c + sizeof E v
                 | Some old \<Rightarrow> size_sd c - sizeof E old + sizeof E v)\<rparr>"

record dstate =
  cache :: "sized_dict option"          \<comment> \<open>\<^verbatim>\<open>self.cache\<close>, None when caching is off\<close>
  rates :: "string \<Rightarrow> int option"       \<comment> \<open>\<^verbatim>\<open>self.rate\<close> of the loader of each name\<close>
  rng :: "nat stream"

definition init_state :: "dataset \<Rightarrow> nat stream \<Rightarrow> dstate" where
  "init_state ds g =
     \<lparr>cache = (if max_cache_size ds > 0 then Some sized_dict_empty else None),
      rates = (\<lambda>_. None), rng = g\<rparr>"

section \<open>Sampling the augmentation\<close>

definition unpack2 :: "pyvalue \<Rightarrow> error + (pyvalue \<times> pyvalue)" where
  \<comment> \<open>\<^verbatim>\<open>note_seq, tempo_seq = value\<close>\<close>
  "unpack2 v =
     (case py_len v of
        Inl e \<Rightarrow> Inl e
      | Inr n \<Rightarrow>
          if n \<noteq> 2 then Inl ValueError
          else (case (py_index v 0, py_index v 1) of
                  (Inr a, Inr b) \<Rightarrow> Inr (a, b)
                | _ \<Rightarrow> Inl TypeError))"

fun cell_nums :: "cell \<Rightarrow> rat list option" where
  "cell_nums (CInt i) = Some [of_int i]"
| "cell_nums (CFloat q) = Some [q]"
| "cell_nums (CStr s) = None"
| "cell_nums CObj = None"
| "cell_nums (CRow cs) =
     (if None \<in> set (map cell_nums cs) then None
      else Some (concat (map (\<lambda>c. the (cell_nums c)) cs)))"

fun value_cell :: "pyvalue \<Rightarrow> cell" where
  \<comment> \<open>a value as an entry of \<^verbatim>\<open>np.array([...])\<close>\<close>
  "value_cell (VArray a) = CRow (cells a)"
| "value_cell (VTensor a) = CRow (cells a)"
| "value_cell (VStr s) = CStr s"
| "value_cell (VNum (PyInt i)) = CInt i"
| "value_cell (VNum (PyFloat q)) = CFloat q"
| "value_cell (VTuple xs) = CRow (map value_cell xs)"
| "value_cell (VList xs) = CRow (map value_cell xs)"
| "value_cell VOther = CObj"

fun cell_kinds :: "cell \<Rightarrow> dkind list" where
  "cell_kinds (CInt i) = [KInt]"
| "cell_kinds (CFloat q) = [KFloat]"
| "cell_kinds (CStr s) = [KOther]"
| "cell_kinds CObj = [KOther]"
| "cell_kinds (CRow cs) = concat (map cell_kinds cs)"

definition np_array :: "pyvalue list \<Rightarrow> ndarray" where
  \<comment> \<open>\<^verbatim>\<open>np.array(list)\<close>: one entry per item; integers give kind 'i', a float among
      them (or no number at all) kind 'f', anything else another kind\<close>
  "np_array xs =
     (let cs = map value_cell xs; ks = concat (map cell_kinds cs) in
      if KOther \<in> set ks then \<lparr>kind = KOther, dtype = ''object'', cells = cs\<rparr>
      else if KFloat \<in> set ks \<or> ks = []
        then \<lparr>kind = KFloat, dtype = ''float64'', cells = map (to_kind KFloat) cs\<rparr>
      else \<lparr>kind = KInt, dtype = ''int64'', cells = cs\<rparr>)"

definition np_mean :: "pyvalue \<Rightarrow> error + rat option" where
  \<comment> \<open>\<^verbatim>\<open>np.mean(v)\<close> over all entries; None is nan (no entry); TypeError when an
      entry is not a number\<close>
  "np_mean v =
     (case cell_nums (value_cell v) of
        None \<Rightarrow> Inl TypeError
      | Some [] \<Rightarrow> Inr None
      | Some qs \<Rightarrow> Inr (Some (sum_list qs / of_nat (length qs))))"

fun contains :: "string \<Rightarrow> string \<Rightarrow> bool" where
  \<comment> \<open>\<^verbatim>\<open>sub in s\<close>\<close>
  "contains sub [] = (sub = [])"
| "contains sub (c # cs) = (take (length sub) (c # cs) = sub \<or> contains sub cs)"

definition speaker_lst :: "string list" where
  "speaker_lst = [''oniku'', ''ofuton'', ''kiritan'', ''natsume'']"

fun find_speaker :: "string \<Rightarrow> string list \<Rightarrow> nat \<Rightarrow> nat \<times> nat \<Rightarrow> nat \<times> nat" where
  \<comment> \<open>the loop over \<^verbatim>\<open>range(len(speaker_lst))\<close>, on \<^verbatim>\<open>(_find_num, _find_index)\<close>\<close>
  "find_speaker uid [] index acc = acc"
| "find_speaker uid (s # ss) index (find_num, find_index) =
     find_speaker uid ss (Suc index)
       (if contains s uid then (Suc find_num, index) else (find_num, find_index))"

definition global_mean :: "env \<Rightarrow> string \<Rightarrow> string \<Rightarrow> error + rat" where
  \<comment> \<open>lines 531 to 548, up to the value of \<^verbatim>\<open>global_pitch_mean\<close> in the subtraction\<close>
  "global_mean E pm uid =
     (case py_eval E pm of
        Inl e \<Rightarrow> Inl e
      | Inr (EvFloat x) \<Rightarrow> py_float E pm
      | Inr (EvList xs) \<Rightarrow>
          (case find_speaker uid speaker_lst 0 (0, 0) of
             (find_num, find_index) \<Rightarrow>
               if find_num \<noteq> 1 then Inl AssertionError
               else if \<not> find_index < length xs then Inl IndexError
               else (case xs ! find_index of
                       VNum (PyInt i) \<Rightarrow> Inr (of_int i)
                     | VNum (PyFloat q) \<Rightarrow> Inr q
                     | _ \<Rightarrow> Inl TypeError))
      | Inr EvOther \<Rightarrow> Inl UnboundLocalError)"

definition gap_list :: "int \<Rightarrow> int list" where
  "gap_list gap = (if gap = 0 then [0] else if gap < 0 then [gap..0] else [0..gap])"

definition pitch_gap :: "env \<Rightarrow> dataset \<Rightarrow> pyvalue \<Rightarrow> string \<Rightarrow> error + int" where
  \<comment> \<open>\<^verbatim>\<open>gap\<close> of line 548, from the value the midi loader gave for \<^verbatim>\<open>(uid, 0, 1)\<close>\<close>
  "pitch_gap E ds value uid =
     (case unpack2 value of
        Inl e \<Rightarrow> Inl e
      | Inr (note_seq, tempo_seq) \<Rightarrow>
          (case np_mean note_seq of
             Inl e \<Rightarrow> Inl e
           | Inr sample_pitch_mean \<Rightarrow>
               (case global_mean E (pitch_mean ds) uid of
                  Inl e \<Rightarrow> Inl e
                | Inr global_pitch_mean \<Rightarrow>
                    (case sample_pitch_mean of
                       None \<Rightarrow> Inl ValueError
                     | Some m \<Rightarrow> Inr (py_int_of (global_pitch_mean - m))))))"

definition sample_pitch ::
  "env \<Rightarrow> dataset \<Rightarrow> dstate \<Rightarrow> string \<Rightarrow> (error + int) \<times> dstate" where
  \<comment> \<open>lines 525 to 558: \<^verbatim>\<open>pitch_aug_factor\<close> in training mode\<close>
  "sample_pitch E ds st uid =
     (if pitch_mean ds \<noteq> ''None'' then
        (case dict_get (loader_dict ds) ''midi'' of
           Inl e \<Rightarrow> (Inl e, st)
         | Inr loader \<Rightarrow>
             (case loader_getitem E loader (rates st ''midi'')
                     (KTriple (AStr uid) (ANum (PyInt 0)) (ANum (PyInt 1))) of
                (r, rate) \<Rightarrow>
                  (let st1 = st\<lparr>rates := (rates st)(''midi'' := rate)\<rparr> in
                   case r of
                     Inl e \<Rightarrow> (Inl e, st1)
                   | Inr value \<Rightarrow>
                       (case pitch_gap E ds value uid of
                          Inl e \<Rightarrow> (Inl e, st1)
                        | Inr gap \<Rightarrow>
                            (case sample1 (gap_list gap) (rng st1) of
                               (p, g) \<Rightarrow> (p, st1\<lparr>rng := g\<rparr>))))))
      else (case randint (pitch_aug_min ds) (pitch_aug_max ds) (rng st) of
              (p, g) \<Rightarrow> (p, st\<lparr>rng := g\<rparr>)))"

definition time_list :: "dataset \<Rightarrow> pynum list" where
  "time_list ds =
     map (\<lambda>i. PyFloat (of_int i / 100))
       [py_int_of (time_aug_min ds * 100) ..
        py_int_of (time_aug_max ds * 100 + 1) - 1]"

definition sample_aug ::
  "env \<Rightarrow> dataset \<Rightarrow> dstate \<Rightarrow> string \<Rightarrow> (error + (int \<times> pynum)) \<times> dstate" where
  \<comment> \<open>lines 524 to 572: \<^verbatim>\<open>(pitch_aug_factor, time_aug_factor)\<close>\<close>
  "sample_aug E ds st uid =
     (if mode ds = ''train'' then
        (case sample_pitch E ds st uid of
           (Inl e, st1) \<Rightarrow> (Inl e, st1)
         | (Inr pitch_aug_factor, st1) \<Rightarrow>
             (case sample1 (time_list ds) (rng st1) of
                (Inl e, g) \<Rightarrow> (Inl e, st1\<lparr>rng := g\<rparr>)
              | (Inr time_aug_factor, g) \<Rightarrow>
                  (Inr (pitch_aug_factor, time_aug_factor), st1\<lparr>rng := g\<rparr>)))
      else (Inr (0, PyInt 1), st))"

section \<open>Fetching a record\<close>

datatype uid_arg = UStr string | UInt int

definition resolve_uid :: "dataset \<Rightarrow> uid_arg \<Rightarrow> error + string" where
  \<comment> \<open>lines 516 to 518: an integer indexes the ids of the first loader\<close>
  "resolve_uid ds u =
     (case u of
        UStr s \<Rightarrow> Inr s
      | UInt i \<Rightarrow>
          (case loader_dict ds of
             [] \<Rightarrow> Inl (External ''StopIteration'')
           | (n, l) # _ \<Rightarrow>
               (let d = loader_iter l; len = int (length d); j = (if i < 0 then len + i else i)
                in if 0 \<le> j \<and> j < len then Inr (d ! nat j) else Inl IndexError)))"

definition query_key :: "string \<Rightarrow> string \<Rightarrow> int \<Rightarrow> key" where
  \<comment> \<open>lines 579 to 583: what the loader of modality \<open>name\<close> is indexed with\<close>
  "query_key name uid pitch_aug_factor =
     (if name = ''midi'' \<or> name = ''singing''
      then (let global_time_aug_factor = 1
            in KTriple (AStr uid) (ANum (PyInt pitch_aug_factor))
                 (ANum (PyInt global_time_aug_factor)))
      else KUid uid)"

definition np_array1 :: "pynum \<Rightarrow> ndarray" where
  \<comment> \<open>\<^verbatim>\<open>np.array([x])\<close> for a number\<close>
  "np_array1 x =
     (case x of
        PyInt i \<Rightarrow> \<lparr>kind = KInt, dtype = ''int64'', cells = [CInt i]\<rparr>
      | PyFloat q \<Rightarrow> \<lparr>kind = KFloat, dtype = ''float64'', cells = [CFloat q]\<rparr>)"

definition loaded_value :: "pyvalue \<Rightarrow> error + pyvalue" where
  \<comment> \<open>lines 584 to 603: a list becomes an array, the type is checked, a tensor and a
      number become arrays\<close>
  "loaded_value v =
     (case v of
        VList xs \<Rightarrow> Inr (VArray (np_array xs))
      | VOther \<Rightarrow> Inl MustBeArray
      | VTensor a \<Rightarrow> Inr (VArray a)
      | VNum x \<Rightarrow> Inr (VArray (np_array1 x))
      | _ \<Rightarrow> Inr v)"

fun load_all ::
  "env \<Rightarrow> (string \<times> loader) list \<Rightarrow> string \<Rightarrow> int \<Rightarrow> (string \<Rightarrow> int option) \<Rightarrow> data \<Rightarrow>
     (error + data) \<times> (string \<Rightarrow> int option)" where
  \<comment> \<open>the loop of lines 576 to 604\<close>
  "load_all E [] uid pitch rs dat = (Inr dat, rs)"
| "load_all E ((name, loader) # rest) uid pitch rs dat =
     (case loader_getitem E loader (rs name) (query_key name uid pitch) of
        (r, rate) \<Rightarrow>
          (let rs1 = rs(name := rate) in
           case r of
             Inl e \<Rightarrow> (Inl e, rs1)
           | Inr v \<Rightarrow>
               (case loaded_value v of
                  Inl e \<Rightarrow> (Inl e, rs1)
                | Inr value \<Rightarrow> load_all E rest uid pitch rs1 (AList.update name value dat))))"

definition apply_preprocess :: "dataset \<Rightarrow> string \<Rightarrow> data \<Rightarrow> pynum \<Rightarrow> error + data" where
  \<comment> \<open>lines 608 and 609\<close>
  "apply_preprocess ds uid dat time_aug_factor =
     (case preprocess ds of
        None \<Rightarrow> Inr dat
      | Some f \<Rightarrow>
          (case f uid dat time_aug_factor of Inl e \<Rightarrow> Inl e | Inr d \<Rightarrow> Inr (dict_of d)))"

fun lens :: "pyvalue list \<Rightarrow> error + nat list" where
  "lens [] = Inr []"
| "lens (v # vs) =
     (case py_len v of
        Inl e \<Rightarrow> Inl e
      | Inr n \<Rightarrow> (case lens vs of Inl e \<Rightarrow> Inl e | Inr ns \<Rightarrow> Inr (n # ns)))"

definition min_length :: "dataset \<Rightarrow> data \<Rightarrow> error + nat" where
  \<comment> \<open>lines 611 to 613; \<^verbatim>\<open>min\<close> of an empty list is a ValueError\<close>
  "min_length ds dat =
     (case lens (map snd (filter (\<lambda>(k, v). k \<notin> set (not_align ds)) dat)) of
        Inl e \<Rightarrow> Inl e
      | Inr [] \<Rightarrow> Inl ValueError
      | Inr (n # ns) \<Rightarrow> Inr (Min (set (n # ns))))"

definition mask_window :: "int \<Rightarrow> nat stream \<Rightarrow> (error + (int \<times> int)) \<times> nat stream" where
  \<comment> \<open>lines 618 to 624: \<^verbatim>\<open>(mask_index_begin, mask_index_end)\<close>; the float 0.2
      lies just above 1/5, so \<^verbatim>\<open>int(length * 0.2)\<close> is the integer part of length/5\<close>
  "mask_window len g =
     (case randint 0 (py_int_of (of_int len * (1 / 5))) g of
        (Inl e, g1) \<Rightarrow> (Inl e, g1)
      | (Inr mask_length, g1) \<Rightarrow>
          if len - mask_length > 0 then
            (case randint 0 (len - mask_length) g1 of
               (Inl e, g2) \<Rightarrow> (Inl e, g2)
             | (Inr mask_index_begin, g2) \<Rightarrow>
                 (Inr (mask_index_begin, mask_index_begin + mask_length), g2))
          else (Inr (0, len), g1))"

definition crop_window :: "int \<Rightarrow> nat stream \<Rightarrow> (error + (int \<times> int)) \<times> nat stream" where
  \<comment> \<open>lines 627 to 629: \<^verbatim>\<open>(crop_index_begin, crop_index_end)\<close>; the float 0.8
      lies just above 4/5, so \<^verbatim>\<open>int(length * 0.8)\<close> is the integer part of 4 length/5\<close>
  "crop_window len g =
     (case randint (py_int_of (of_int len * (4 / 5))) len g of
        (Inl e, g1) \<Rightarrow> (Inl e, g1)
      | (Inr crop_length, g1) \<Rightarrow>
          (case randint 0 (len - crop_length) g1 of
             (Inl e, g2) \<Rightarrow> (Inl e, g2)
           | (Inr crop_index_begin, g2) \<Rightarrow>
               (Inr (crop_index_begin, crop_index_begin + crop_length), g2)))"

definition slice_list :: "int \<Rightarrow> int \<Rightarrow> 'a list \<Rightarrow> 'a list" where
  \<comment> \<open>\<^verbatim>\<open>xs[b:e]\<close> for \<open>0 \<le> b\<close> and \<open>0 \<le> e\<close>\<close>
  "slice_list b e xs = take (nat e - nat b) (drop (nat b) xs)"

definition py_slice :: "int \<Rightarrow> int \<Rightarrow> pyvalue \<Rightarrow> error + pyvalue" where
  "py_slice b e v =
     (case v of
        VArray a \<Rightarrow> Inr (VArray (a\<lparr>cells := slice_list b e (cells a)\<rparr>))
      | VTensor a \<Rightarrow> Inr (VTensor (a\<lparr>cells := slice_list b e (cells a)\<rparr>))
      | VStr s \<Rightarrow> Inr (VStr (slice_list b e s))
      | VTuple xs \<Rightarrow> Inr (VTuple (slice_list b e xs))
      | VList xs \<Rightarrow> Inr (VList (slice_list b e xs))
      | _ \<Rightarrow> Inl TypeError)"

fun zero_cell :: "cell \<Rightarrow> cell" where
  "zero_cell (CInt i) = CInt 0"
| "zero_cell (CFloat q) = CFloat 0"
| "zero_cell (CStr s) = CStr ''0''"
| "zero_cell CObj = CInt 0"
| "zero_cell (CRow cs) = CRow (map zero_cell cs)"

definition zero_range :: "int \<Rightarrow> int \<Rightarrow> cell list \<Rightarrow> cell list" where
  \<comment> \<open>\<^verbatim>\<open>xs[b:e] = 0\<close> on an array, for \<open>0 \<le> b\<close> and \<open>0 \<le> e\<close>\<close>
  "zero_range b e cs =
     take (nat b) cs @ map zero_cell (slice_list b e cs) @ drop (max (nat b) (nat e)) cs"

definition py_mask :: "int \<Rightarrow> int \<Rightarrow> pyvalue \<Rightarrow> error + pyvalue" where
  \<comment> \<open>item assignment: a tuple, a string and a list (given a number) refuse it\<close>
  "py_mask b e v =
     (case v of
        VArray a \<Rightarrow> Inr (VArray (a\<lparr>cells := zero_range b e (cells a)\<rparr>))
      | VTensor a \<Rightarrow> Inr (VTensor (a\<lparr>cells := zero_range b e (cells a)\<rparr>))
      | _ \<Rightarrow> Inl TypeError)"

definition align_value ::
  "int \<Rightarrow> (int \<times> int) option \<Rightarrow> (int \<times> int) option \<Rightarrow> pyvalue \<Rightarrow> error + pyvalue" where
  \<comment> \<open>lines 635 to 639, for one key\<close>
  "align_value len mwin cwin v =
     (case py_slice 0 len v of
        Inl e \<Rightarrow> Inl e
      | Inr v1 \<Rightarrow>
          (case (case mwin of None \<Rightarrow> Inr v1 | Some (mb, me) \<Rightarrow> py_mask mb me v1) of
             Inl e \<Rightarrow> Inl e
           | Inr v2 \<Rightarrow> (case cwin of None \<Rightarrow> Inr v2 | Some (cb, ce) \<Rightarrow> py_slice cb ce v2)))"

fun align_all ::
  "string list \<Rightarrow> int \<Rightarrow> (int \<times> int) option \<Rightarrow> (int \<times> int) option \<Rightarrow> data \<Rightarrow> error + data" where
  \<comment> \<open>the loop of lines 631 to 639\<close>
  "align_all na len mwin cwin [] = Inr []"
| "align_all na len mwin cwin ((k, v) # rest) =
     (if k \<in> set na then
        (case align_all na len mwin cwin rest of
           Inl e \<Rightarrow> Inl e
         | Inr rest' \<Rightarrow> Inr ((k, v) # rest'))
      else
        (case align_value len mwin cwin v of
           Inl e \<Rightarrow> Inl e
         | Inr v' \<Rightarrow>
             (case align_all na len mwin cwin rest of
                Inl e \<Rightarrow> Inl e
              | Inr rest' \<Rightarrow> Inr ((k, v') # rest'))))"

definition windows ::
  "dataset \<Rightarrow> int \<Rightarrow> nat stream \<Rightarrow>
     (error + ((int \<times> int) option \<times> (int \<times> int) option)) \<times> nat stream" where
  \<comment> \<open>lines 616 to 629: the mwin and the cwin window, when each applies\<close>
  "windows ds len g =
     (case (if mode ds = ''train'' \<and> mask_aug ds
            then (case mask_window len g of
                    (Inl e, g1) \<Rightarrow> (Inl e, g1)
                  | (Inr w, g1) \<Rightarrow> (Inr (Some w), g1))
            else (Inr None, g)) of
        (Inl e, g1) \<Rightarrow> (Inl e, g1)
      | (Inr mwin, g1) \<Rightarrow>
          (case (if mode ds = ''train'' \<and> random_crop ds
                 then (case crop_window len g1 of
                         (Inl e, g2) \<Rightarrow> (Inl e, g2)
                       | (Inr w, g2) \<Rightarrow> (Inr (Some w), g2))
                 else (Inr None, g1)) of
             (Inl e, g2) \<Rightarrow> (Inl e, g2)
           | (Inr cwin, g2) \<Rightarrow> (Inr (mwin, cwin), g2)))"

definition align :: "dataset \<Rightarrow> data \<Rightarrow> nat stream \<Rightarrow> (error + data) \<times> nat stream" where
  \<comment> \<open>lines 611 to 639\<close>
  "align ds dat g =
     (case min_length ds dat of
        Inl e \<Rightarrow> (Inl e, g)
      | Inr len \<Rightarrow>
          (case windows ds (int len) g of
             (Inl e, g1) \<Rightarrow> (Inl e, g1)
           | (Inr (mwin, cwin), g1) \<Rightarrow>
               (align_all (not_align ds) (int len) mwin cwin dat, g1)))"

definition attach :: "data \<Rightarrow> int \<Rightarrow> pynum \<Rightarrow> data" where
  \<comment> \<open>lines 644 and 645\<close>
  "attach dat pitch_aug_factor time_aug_factor =
     AList.update ''time_aug'' (VArray (np_array1 time_aug_factor))
       (AList.update ''pitch_aug'' (VArray (np_array1 (PyInt pitch_aug_factor))) dat)"

definition force_value :: "dataset \<Rightarrow> string \<Rightarrow> pyvalue \<Rightarrow> error + pyvalue" where
  \<comment> \<open>lines 649 to 663, for one name\<close>
  "force_value ds name v =
     (case v of
        VArray a \<Rightarrow>
          (case kind a of
             KFloat \<Rightarrow> Inr (VArray (astype KFloat (float_dtype ds) a))
           | KInt \<Rightarrow> Inr (VArray (astype KInt (int_dtype ds) a))
           | KOther \<Rightarrow> Inl UnsupportedDtype)
      | VTuple xs \<Rightarrow> Inr (VTuple xs)
      | _ \<Rightarrow> Inl (NotConverted name))"

fun force_precision :: "dataset \<Rightarrow> data \<Rightarrow> error + data" where
  \<comment> \<open>the loop of lines 648 to 663\<close>
  "force_precision ds [] = Inr []"
| "force_precision ds ((name, v) # rest) =
     (case force_value ds name v of
        Inl e \<Rightarrow> Inl e
      | Inr v' \<Rightarrow>
          (case force_precision ds rest of
             Inl e \<Rightarrow> Inl e
           | Inr rest' \<Rightarrow> Inr ((name, v') # rest')))"

definition raw_record ::
  "env \<Rightarrow> dataset \<Rightarrow> (string \<Rightarrow> int option) \<Rightarrow> string \<Rightarrow> int \<Rightarrow> pynum \<Rightarrow>
     (error + data) \<times> (string \<Rightarrow> int option)" where
  \<comment> \<open>lines 574 to 609: the loaded values, preprocessed\<close>
  "raw_record E ds rs uid pitch_aug_factor time_aug_factor =
     (case load_all E (loader_dict ds) uid pitch_aug_factor rs [] of
        (Inl e, rs1) \<Rightarrow> (Inl e, rs1)
      | (Inr dat, rs1) \<Rightarrow> (apply_preprocess ds uid dat time_aug_factor, rs1))"

definition store :: "env \<Rightarrow> dataset \<Rightarrow> sized_dict option \<Rightarrow> string \<Rightarrow> data \<Rightarrow> sized_dict option" where
  \<comment> \<open>lines 665 and 666\<close>
  "store E ds c uid dat =
     (case c of
        None \<Rightarrow> None
      | Some sd \<Rightarrow>
          if of_nat (size_sd sd) < max_cache_size ds then Some (sized_dict_set E sd uid dat)
          else Some sd)"

definition fetch ::
  "env \<Rightarrow> dataset \<Rightarrow> dstate \<Rightarrow> string \<Rightarrow> (error + string \<times> data) \<times> dstate" where
  \<comment> \<open>lines 524 to 671: what \<^verbatim>\<open>__getitem__\<close> does when the cache does not answer\<close>
  "fetch E ds st uid =
     (case sample_aug E ds st uid of
        (Inl e, st1) \<Rightarrow> (Inl e, st1)
      | (Inr (pitch_aug_factor, time_aug_factor), st1) \<Rightarrow>
          (case raw_record E ds (rates st1) uid pitch_aug_factor time_aug_factor of
             (Inl e, rs) \<Rightarrow> (Inl e, st1\<lparr>rates := rs\<rparr>)
           | (Inr dat, rs) \<Rightarrow>
               (case align ds dat (rng st1) of
                  (Inl e, g) \<Rightarrow> (Inl e, st1\<lparr>rates := rs, rng := g\<rparr>)
                | (Inr aligned, g) \<Rightarrow>
                    (case force_precision ds (attach aligned pitch_aug_factor time_aug_factor) of
                       Inl e \<Rightarrow> (Inl e, st1\<lparr>rates := rs, rng := g\<rparr>)
                     | Inr final \<Rightarrow>
                         (Inr (uid, final),
                          st1\<lparr>rates := rs, rng := g,
                              cache := store E ds (cache st1) uid final\<rparr>)))))"

definition cached :: "dstate \<Rightarrow> string \<Rightarrow> data option" where
  \<comment> \<open>\<^verbatim>\<open>self.cache is not None and uid in self.cache\<close>, with the record\<close>
  "cached st uid = (case cache st of None \<Rightarrow> None | Some sd \<Rightarrow> map_of (entries sd) uid)"

definition getitem ::
  "env \<Rightarrow> dataset \<Rightarrow> dstate \<Rightarrow> uid_arg \<Rightarrow> (error + string \<times> data) \<times> dstate" where
  \<comment> \<open>\<^verbatim>\<open>MuskitDataset.__getitem__\<close>\<close>
  "getitem E ds st u =
     (case resolve_uid ds u of
        Inl e \<Rightarrow> (Inl e, st)
      | Inr uid \<Rightarrow>
          (case cached st uid of
             Some dat \<Rightarrow> (Inr (uid, dat), st)
           | None \<Rightarrow> fetch E ds st uid))"

fun run ::
  "env \<Rightarrow> dataset \<Rightarrow> dstate \<Rightarrow> uid_arg list \<Rightarrow> (error + string \<times> data) list \<times> dstate" where
  \<comment> \<open>successive calls of \<^verbatim>\<open>dataset[u]\<close>; a caller may catch an exception and go on\<close>
  "run E ds st [] = ([], st)"
| "run E ds st (u # us) =
     (case getitem E ds st u of
        (r, st1) \<Rightarrow> (case run E ds st1 us of (rs, st2) \<Rightarrow> (r # rs, st2)))"

section \<open>The size of a dataset\<close>

text \<open>
  \<^verbatim>\<open>len(dataset)\<close>: the class body of MuskitDataset defines \<^verbatim>\<open>__init__\<close>,
  \<^verbatim>\<open>_build_loader\<close>, \<^verbatim>\<open>has_name\<close>, \<^verbatim>\<open>names\<close>, \<^verbatim>\<open>__iter__\<close>, \<^verbatim>\<open>__repr__\<close> and
  \<^verbatim>\<open>__getitem__\<close>; AbsDataset declares \<^verbatim>\<open>has_name\<close>, \<^verbatim>\<open>names\<close> and \<^verbatim>\<open>__getitem__\<close>.
  Neither defines \<^verbatim>\<open>__len__\<close>, and torch's Dataset gives no default, so the call raises.
\<close>

definition len_dataset :: "dataset \<Rightarrow> error + nat" where
  "len_dataset ds = Inl TypeError"

section \<open>Concrete readers and datasets\<close>

definition ex_wave :: ndarray where
  "ex_wave = \<lparr>kind = KFloat, dtype = ''float64'',
              cells = [CFloat 0, CFloat (1 / 2), CFloat (- 1 / 2)]\<rparr>"

definition ex_sound :: native where
  \<comment> \<open>a sound reader: \<^verbatim>\<open>(rate, waveform)\<close> for utterance u1\<close>
  "ex_sound =
     \<lparr>nkeys = [''u1''],
      nget = (\<lambda>k. case k of
                KTriple (AStr u) p t \<Rightarrow>
                  if u = ''u1'' then Inr (VTuple [VNum (PyInt 16000), VArray ex_wave])
                  else Inl KeyError
              | _ \<Rightarrow> Inl KeyError)\<rparr>"

definition ex_ark :: native where
  \<comment> \<open>a reader that gives \<^verbatim>\<open>(waveform, rate)\<close>\<close>
  "ex_ark =
     \<lparr>nkeys = [''u1''],
      nget = (\<lambda>k. Inr (VTuple [VArray ex_wave, VNum (PyInt 16000)]))\<rparr>"

definition ex_label :: native where
  "ex_label =
     \<lparr>nkeys = [''u1''],
      nget = (\<lambda>k. if k = KUid ''u1''
                then Inr (VList [VList [VStr ''0.0'', VStr ''0.5'', VStr ''a''],
                                 VList [VStr ''0.5'', VStr ''1.0'', VStr ''b'']])
                else Inl KeyError)\<rparr>"

definition ex_midi :: native where
  \<comment> \<open>notes 60, 62, 64 shifted by the pitch factor, and their tempo\<close>
  "ex_midi =
     \<lparr>nkeys = [''u1''],
      nget = (\<lambda>k. case k of
                KTriple (AStr u) (ANum (PyInt p)) t \<Rightarrow>
                  if u = ''u1''
                  then Inr (VTuple
                         [VArray \<lparr>kind = KInt, dtype = ''int64'',
                                  cells = [CInt (60 + p), CInt (62 + p), CInt (64 + p)]\<rparr>,
                          VArray \<lparr>kind = KInt, dtype = ''int64'',
                                  cells = [CInt 120, CInt 120, CInt 120]\<rparr>])
                  else Inl KeyError
              | _ \<Rightarrow> Inl KeyError)\<rparr>"

definition ex_npy :: "string \<Rightarrow> native" where
  \<comment> \<open>three frames, or two for the file short.scp\<close>
  "ex_npy path =
     \<lparr>nkeys = [''u1''],
      nget = (\<lambda>k. if k = KUid ''u1''
                then Inr (VArray \<lparr>kind = KInt, dtype = ''int64'',
                                  cells = (if path = ''short.scp'' then [CInt 7, CInt 8]
                                           else [CInt 1, CInt 2, CInt 3])\<rparr>)
                else Inl KeyError)\<rparr>"

definition ex_env :: env where
  "ex_env =
     \<lparr>open_reader = (\<lambda>r path. case r of
                        SoundScpReader \<Rightarrow> Inr ex_sound
                      | MIDIScpReader \<Rightarrow> Inr ex_midi
                      | read_label \<Rightarrow> Inr ex_label
                      | NpyScpReader \<Rightarrow> Inr (ex_npy path)
                      | _ \<Rightarrow> Inl (External ''no such file'')),
      parse_size = (\<lambda>s. Inl ValueError),
      py_eval = (\<lambda>s. if s = ''60.0'' then Inr (EvFloat 60) else Inr EvOther),
      py_float = (\<lambda>s. if s = ''0.0'' then Inr 0 else if s = ''0.5'' then Inr (1 / 2)
                      else if s = ''1.0'' then Inr 1 else if s = ''60.0'' then Inr 60
                      else Inl ValueError),
      py_int = (\<lambda>s. None),
      sizeof = (\<lambda>d. 1)\<rparr>"

definition ex_args :: "(string \<times> string \<times> string) list \<Rightarrow> string \<Rightarrow> init_args" where
  \<comment> \<open>the constructor's defaults, but for the modalities, the mode and a cache of 1000\<close>
  "ex_args pntl m =
     \<lparr>path_name_type_list = pntl, a_preprocess = None,
      a_float_dtype = ''float32'', a_int_dtype = ''long'',
      a_max_cache_size = SizeNum 1000, a_max_cache_fd = 0,
      a_not_align = [''text''], a_mode = m,
      a_pitch_aug_min = 0, a_pitch_aug_max = 0, a_pitch_mean = ''None'',
      a_time_aug_min = 1, a_time_aug_max = 1,
      a_random_crop = False, a_mask_aug = False\<rparr>"

definition ex_ds :: "(string \<times> loader) list \<Rightarrow> (string \<times> string \<times> string) list \<Rightarrow> string \<Rightarrow> dataset" where
  \<comment> \<open>the dataset that \<open>ex_args\<close> constructs, given its loaders\<close>
  "ex_ds ld di m =
     \<lparr>loader_dict = ld, debug_info = di, preprocess = None,
      float_dtype = ''float32'', int_dtype = ''long'', max_cache_fd = 0,
      max_cache_size = 1000, not_align = [''text''], mode = m,
      pitch_aug_min = 0, pitch_aug_max = 0, pitch_mean = ''None'',
      time_aug_min = 1, time_aug_max = 1, random_crop = False, mask_aug = False\<rparr>"

definition scenario_ds :: dataset where
  \<comment> \<open>modalities (wav.scp, input, sound) and (label, output, duration), mode valid\<close>
  "scenario_ds =
     ex_ds [(''input'', SoundAdapter ex_sound (Some ''float32'')), (''output'', LabelAdapter ex_label)]
           [(''input'', ''wav.scp'', ''sound''), (''output'', ''label'', ''duration'')] ''valid''"

definition feats_ds :: "string \<Rightarrow> string \<Rightarrow> dataset" where
  \<comment> \<open>modalities (feats.scp, feats, npy) and (short.scp, name, npy)\<close>
  "feats_ds name m =
     ex_ds [(''feats'', Plain (ex_npy ''feats.scp'')), (name, Plain (ex_npy ''short.scp''))]
           [(''feats'', ''feats.scp'', ''npy''), (name, ''short.scp'', ''npy'')] m"




definition long_array :: "int list \<Rightarrow> pyvalue" where
  "long_array xs = VArray \<lparr>kind = KInt, dtype = ''long'', cells = map CInt xs\<rparr>"

definition feats_record :: data where
  "feats_record =
     [(''feats'', long_array [1, 2]), (''score'', long_array [7, 8]),
      (''pitch_aug'', long_array [0]), (''time_aug'', long_array [1])]"

section \<open>Dictionaries\<close>

lemma update_fresh: "k \<notin> set (map fst al) \<Longrightarrow> AList.update k v al = al @ [(k, v)]"
  by (induction al) auto


section \<open>Construction\<close>

lemma build_all_names:
  "build_all E fdt fd xs ld di = Inr (ld', di') \<Longrightarrow>
     map fst ld' = map fst ld @ map (fst \<circ> snd) xs \<and> distinct (map (fst \<circ> snd) xs) \<and>
     set (map (fst \<circ> snd) xs) \<inter> set (map fst ld) = {}"
proof (induction xs arbitrary: ld di)
  case Nil
  then show ?case by simp
next
  case (Cons x xs)
  obtain path name ty where x: "x = (path, name, ty)" by (cases x)
  from Cons.prems x have fresh: "name \<notin> set (map fst ld)"
    by (auto split: if_splits)
  from Cons.prems x fresh obtain l where
    l: "build_loader E fdt fd path ty = Inr l" and
    rest: "build_all E fdt fd xs (AList.update name l ld) (AList.update name (path, ty) di) = Inr (ld', di')"
    by (auto split: if_splits sum.splits)
  from Cons.IH [OF rest] fresh show ?case
    by (auto simp: x update_fresh)
qed

lemma build_all_keeps:
  "build_all E fdt fd xs ld di = Inr (ld', di') \<Longrightarrow> \<exists>tl. ld' = ld @ tl"
proof (induction xs arbitrary: ld di)
  case Nil
  then show ?case by simp
next
  case (Cons x xs)
  obtain path name ty where x: "x = (path, name, ty)" by (cases x)
  from Cons.prems x have fresh: "name \<notin> set (map fst ld)"
    by (auto split: if_splits)
  from Cons.prems x fresh obtain l where
    rest: "build_all E fdt fd xs (AList.update name l ld) (AList.update name (path, ty) di) = Inr (ld', di')"
    by (auto split: if_splits sum.splits)
  from Cons.IH [OF rest] fresh show ?case
    by (auto simp: update_fresh)
qed

lemma build_all_append:
  "build_all E fdt fd (xs @ ys) ld di =
     (case build_all E fdt fd xs ld di of
        Inl e \<Rightarrow> Inl e
      | Inr (ld1, di1) \<Rightarrow> build_all E fdt fd ys ld1 di1)"
proof (induction xs arbitrary: ld di)
  case Nil
  then show ?case by simp
next
  case (Cons x xs)
  obtain path name ty where x: "x = (path, name, ty)" by (cases x)
  show ?case by (simp add: x Cons.IH split: sum.splits)
qed

lemma init_Inr:
  "init E a = Inr ds \<Longrightarrow>
     \<exists>di. build_all E (a_float_dtype a) (a_max_cache_fd a) (path_name_type_list a) [] [] =
            Inr (loader_dict ds, di)"
  by (auto simp: init_def split: if_splits sum.splits prod.splits)


lemmas build_defs =
  init_def ex_args_def ex_env_def build_loader_def DATA_TYPES_def sound_loader_def
  label_loader_def midi_loader_def plain_loader_def lift_reader_def loader_len_def
  resolve_cache_size_def ex_ds_def ex_sound_def ex_label_def ex_midi_def ex_npy_def

lemma init_scenario:
  "init ex_env (ex_args [(''wav.scp'', ''input'', ''sound''), (''label'', ''output'', ''duration'')]
     ''valid'') = Inr scenario_ds"
  by (simp add: build_defs scenario_ds_def)

text \<open>
  C8. A modality name declared twice makes the construction fail, so that no dataset
  exists to fetch from. The loop checks the declarations in order: the failure is the
  duplicate-key error as soon as the declarations before the repeated one have built
  their loaders (a declaration that fails to build before that raises its own error).
\<close>

theorem duplicate_name_fails:
  "(\<not> distinct (map (fst \<circ> snd) (path_name_type_list a)) \<longrightarrow> (\<exists>e. init E a = Inl e)) \<and>
   (path_name_type_list a = pre @ (path, name, ty) # rest \<and>
    name \<in> set (map (fst \<circ> snd) pre) \<and>
    build_all E (a_float_dtype a) (a_max_cache_fd a) pre [] [] = Inr (ld, di)
      \<longrightarrow> init E a = Inl (Duplicated name))"
proof (intro conjI impI)
  assume nd: "\<not> distinct (map (fst \<circ> snd) (path_name_type_list a))"
  show "\<exists>e. init E a = Inl e"
  proof (cases "init E a")
    case (Inl e)
    then show ?thesis by blast
  next
    case (Inr ds)
    from init_Inr [OF Inr] obtain di' where
      "build_all E (a_float_dtype a) (a_max_cache_fd a) (path_name_type_list a) [] [] =
         Inr (loader_dict ds, di')" by blast
    from build_all_names [OF this] nd show ?thesis by simp
  qed
next
  assume h: "path_name_type_list a = pre @ (path, name, ty) # rest \<and>
    name \<in> set (map (fst \<circ> snd) pre) \<and>
    build_all E (a_float_dtype a) (a_max_cache_fd a) pre [] [] = Inr (ld, di)"
  then have b: "build_all E (a_float_dtype a) (a_max_cache_fd a) pre [] [] = Inr (ld, di)"
    by simp
  from build_all_names [OF b] h have "name \<in> set (map fst ld)" by simp
  then have "build_all E (a_float_dtype a) (a_max_cache_fd a) (path_name_type_list a) [] [] =
      Inl (Duplicated name)"
    using h by (simp add: build_all_append)
  then show "init E a = Inl (Duplicated name)" using h by (simp add: init_def)
qed

theorem duplicate_name_fails_witness:
  "\<not> distinct (map (fst \<circ> snd) [(''wav.scp'', ''input'', ''sound''), (''label'', ''input'', ''duration'')]) \<and>
   init ex_env (ex_args [(''wav.scp'', ''input'', ''sound''), (''label'', ''input'', ''duration'')]
     ''valid'') = Inl (Duplicated ''input'')"
proof -
  let ?a = "ex_args [(''wav.scp'', ''input'', ''sound''), (''label'', ''input'', ''duration'')] ''valid''"
  have b: "build_all ex_env (a_float_dtype ?a) (a_max_cache_fd ?a) [(''wav.scp'', ''input'', ''sound'')] [] [] =
      Inr ([(''input'', SoundAdapter ex_sound (Some ''float32''))], [(''input'', ''wav.scp'', ''sound'')])"
    by (simp add: build_defs)
  have p: "path_name_type_list ?a = [(''wav.scp'', ''input'', ''sound'')] @ (''label'', ''input'', ''duration'') # []"
    by (simp add: ex_args_def)
  from duplicate_name_fails [of ?a ex_env "[(''wav.scp'', ''input'', ''sound'')]" "''label''" "''input''"
      "''duration''" "[]" "[(''input'', SoundAdapter ex_sound (Some ''float32''))]"
      "[(''input'', ''wav.scp'', ''sound'')]"] b p
  show ?thesis by simp
qed

text \<open>
  C9. A dataset is constructed only if pitch_aug_min \<le> pitch_aug_max, time_aug_min \<le>
  time_aug_max and, when pitch_mean is not "None", both pitch bounds are 0; once the
  loaders are built and the cache size is read, breaking one of them is an AssertionError.
\<close>

theorem init_preconditions:
  "(init E a = Inr ds \<longrightarrow>
      a_pitch_aug_min a \<le> a_pitch_aug_max a \<and> a_time_aug_min a \<le> a_time_aug_max a \<and>
      (a_pitch_mean a \<noteq> ''None'' \<longrightarrow> a_pitch_aug_min a = 0 \<and> a_pitch_aug_max a = 0)) \<and>
   (path_name_type_list a \<noteq> [] \<and>
    build_all E (a_float_dtype a) (a_max_cache_fd a) (path_name_type_list a) [] [] = Inr (ld, di) \<and>
    resolve_cache_size E (a_max_cache_size a) = Inr m \<and>
    \<not> (a_pitch_aug_min a \<le> a_pitch_aug_max a \<and> a_time_aug_min a \<le> a_time_aug_max a \<and>
      (a_pitch_mean a \<noteq> ''None'' \<longrightarrow> a_pitch_aug_min a = 0 \<and> a_pitch_aug_max a = 0))
      \<longrightarrow> init E a = Inl AssertionError)"
  by (auto simp: init_def split: if_splits sum.splits prod.splits)

theorem init_preconditions_witness:
  "init ex_env (ex_args [(''wav.scp'', ''input'', ''sound''), (''label'', ''output'', ''duration'')]
     ''valid'') = Inr scenario_ds \<and>
   init ex_env ((ex_args [(''wav.scp'', ''input'', ''sound''), (''label'', ''output'', ''duration'')]
     ''valid'')\<lparr>a_pitch_mean := ''60.0'', a_pitch_aug_max := 2\<rparr>) = Inl AssertionError"
proof -
  let ?a = "ex_args [(''wav.scp'', ''input'', ''sound''), (''label'', ''output'', ''duration'')] ''valid''"
  let ?b = "?a\<lparr>a_pitch_mean := ''60.0'', a_pitch_aug_max := 2\<rparr>"
  have ok: "a_pitch_aug_min ?a \<le> a_pitch_aug_max ?a \<and> a_time_aug_min ?a \<le> a_time_aug_max ?a \<and>
      (a_pitch_mean ?a \<noteq> ''None'' \<longrightarrow> a_pitch_aug_min ?a = 0 \<and> a_pitch_aug_max ?a = 0)"
    using init_preconditions [of ex_env ?a scenario_ds] init_scenario by blast
  have b: "build_all ex_env (a_float_dtype ?b) (a_max_cache_fd ?b) (path_name_type_list ?b) [] [] =
      Inr (loader_dict scenario_ds, debug_info scenario_ds)"
    by (simp add: build_defs scenario_ds_def)
  have c: "resolve_cache_size ex_env (a_max_cache_size ?b) = Inr 1000"
    by (simp add: resolve_cache_size_def ex_args_def)
  have d: "path_name_type_list ?b \<noteq> [] \<and> \<not> (a_pitch_aug_min ?b \<le> a_pitch_aug_max ?b \<and>
      a_time_aug_min ?b \<le> a_time_aug_max ?b \<and>
      (a_pitch_mean ?b \<noteq> ''None'' \<longrightarrow> a_pitch_aug_min ?b = 0 \<and> a_pitch_aug_max ?b = 0))"
    by (simp add: ex_args_def)
  from init_preconditions [of ex_env ?b scenario_ds "loader_dict scenario_ds" "debug_info scenario_ds" 1000] b c d
  have "init ex_env ?b = Inl AssertionError" by blast
  with init_scenario show ?thesis by simp
qed

text \<open>
  C5 as stated fails: the class has no \<^verbatim>\<open>__len__\<close>, so \<^verbatim>\<open>len(dataset)\<close> raises instead of
  giving the number of entries of the first loader.
\<close>

theorem len_dataset_counterexample:
  "init ex_env (ex_args [(''wav.scp'', ''input'', ''sound''), (''label'', ''output'', ''duration'')]
     ''valid'') = Inr scenario_ds \<and>
   len_dataset scenario_ds \<noteq> Inr (loader_len (SoundAdapter ex_sound (Some ''float32'')))"
  using init_scenario by (simp add: len_dataset_def)

text \<open>
  C5, amended. For every constructed dataset, names() lists the declared modality names
  in the order of their declaration, so every declared name appears in it and has_name
  holds of it; iterating the dataset gives the ids of the loader of the first
  declaration, as many as that loader has entries. (The class defines no length.)
\<close>

theorem names_and_iteration:
  assumes "init E a = Inr ds"
  shows "names ds = map (fst \<circ> snd) (path_name_type_list a) \<and>
         (\<forall>(path, name, ty) \<in> set (path_name_type_list a).
            name \<in> set (names ds) \<and> has_name ds name) \<and>
         (\<exists>path name ty rest l.
            path_name_type_list a = (path, name, ty) # rest \<and>
            build_loader E (a_float_dtype a) (a_max_cache_fd a) path ty = Inr l \<and>
            iter_dataset ds = Inr (loader_iter l) \<and>
            length (loader_iter l) = loader_len l)"
proof -
  from init_Inr [OF assms] obtain di where
    b: "build_all E (a_float_dtype a) (a_max_cache_fd a) (path_name_type_list a) [] [] =
          Inr (loader_dict ds, di)" by blast
  from build_all_names [OF b] have n: "names ds = map (fst \<circ> snd) (path_name_type_list a)"
    by (simp add: names_def)
  then have m: "\<forall>(path, name, ty) \<in> set (path_name_type_list a).
      name \<in> set (names ds) \<and> has_name ds name"
    by (force simp: has_name_def names_def)
  from assms obtain x rest where xs: "path_name_type_list a = x # rest"
    by (cases "path_name_type_list a") (auto simp: init_def)
  obtain path name ty where x: "x = (path, name, ty)" by (cases x)
  from b xs x obtain l where
    l: "build_loader E (a_float_dtype a) (a_max_cache_fd a) path ty = Inr l" and
    r: "build_all E (a_float_dtype a) (a_max_cache_fd a) rest [(name, l)] [(name, path, ty)] =
          Inr (loader_dict ds, di)"
    by (auto split: sum.splits if_splits)
  from build_all_keeps [OF r] obtain tl where "loader_dict ds = (name, l) # tl" by auto
  then have "iter_dataset ds = Inr (loader_iter l)" by (simp add: iter_dataset_def)
  with xs x l n m show ?thesis
    by (simp add: loader_iter_def loader_len_def)
qed

theorem names_and_iteration_witness:
  "init ex_env (ex_args [(''wav.scp'', ''input'', ''sound''), (''label'', ''output'', ''duration'')]
     ''valid'') = Inr scenario_ds \<and>
   names scenario_ds = [''input'', ''output''] \<and>
   iter_dataset scenario_ds = Inr [''u1'']"
proof -
  from names_and_iteration [OF init_scenario]
  have "names scenario_ds = map (fst \<circ> snd)
      (path_name_type_list (ex_args [(''wav.scp'', ''input'', ''sound''),
         (''label'', ''output'', ''duration'')] ''valid''))" by blast
  then have "names scenario_ds = [''input'', ''output'']" by (simp add: ex_args_def)
  moreover have "iter_dataset scenario_ds = Inr [''u1'']"
    by (simp add: iter_dataset_def scenario_ds_def ex_ds_def loader_iter_def ex_sound_def)
  ultimately show ?thesis using init_scenario by simp
qed

section \<open>The sound adapter\<close>

text \<open>
  C7. A reader that gives (waveform, rate) is not accepted: the second branch of the
  adapter repeats the test of the first, so the pair falls to the RuntimeError.
\<close>

theorem waveform_first_rejected:
  "nget ex_ark (KTriple (AStr ''u1'') (ANum (PyInt 0)) (ANum (PyInt 1))) =
     Inr (VTuple [VArray ex_wave, VNum (PyInt 16000)]) \<and>
   sound_getitem ex_ark (Some ''float32'') None
     (KTriple (AStr ''u1'') (ANum (PyInt 0)) (ANum (PyInt 1))) = (Inl UnexpectedType, None) \<and>
   sound_getitem (ex_ark\<lparr>nget := (\<lambda>k. Inr (VTuple [VNum (PyInt 16000), VArray ex_wave]))\<rparr>)
     (Some ''float32'') None (KTriple (AStr ''u1'') (ANum (PyInt 0)) (ANum (PyInt 1))) =
     (Inr (VArray (astype KFloat ''float32'' ex_wave)), Some 16000)"
  by (simp add: sound_getitem_def unpack3_def ex_ark_def)

section \<open>Fetching\<close>

lemmas fetch_defs =
  getitem_def resolve_uid_def cached_def init_state_def sized_dict_empty_def fetch_def
  sample_aug_def raw_record_def query_key_def loaded_value_def apply_preprocess_def
  align_def min_length_def windows_def py_len_def align_value_def py_slice_def slice_list_def
  attach_def force_value_def astype_def np_array1_def store_def sized_dict_set_def

lemmas ex_defs = ex_ds_def ex_env_def ex_npy_def ex_sound_def ex_midi_def ex_label_def ex_wave_def

text \<open>
  C2. In the scenario the fetch of "u1" does not succeed: the modality named "input" is
  asked with the bare id, and the sound adapter unpacks its key into three parts, which
  the two characters of "u1" do not give.
\<close>

theorem scenario_fetch_raises:
  "init ex_env (ex_args [(''wav.scp'', ''input'', ''sound''), (''label'', ''output'', ''duration'')]
     ''valid'') = Inr scenario_ds \<and>
   fst (getitem ex_env scenario_ds (init_state scenario_ds (sconst 0)) (UStr ''u1'')) =
     Inl ValueError"
  using init_scenario
  by (simp add: fetch_defs scenario_ds_def ex_ds_def sound_getitem_def unpack3_def)

lemma force_precision_map_of:
  "force_precision ds d = Inr d' \<Longrightarrow> map_of d k = Some v \<Longrightarrow>
     \<exists>v'. force_value ds k v = Inr v' \<and> map_of d' k = Some v'"
proof (induction d arbitrary: d')
  case Nil
  then show ?case by simp
next
  case (Cons x d)
  obtain n w where x: "x = (n, w)" by (cases x)
  from Cons.prems(1) x obtain w' r' where
    w: "force_value ds n w = Inr w'" and r: "force_precision ds d = Inr r'" and d': "d' = (n, w') # r'"
    by (auto split: sum.splits)
  show ?case
  proof (cases "n = k")
    case True
    with Cons.prems(2) x w d' show ?thesis by simp
  next
    case False
    with Cons.prems(2) x have "map_of d k = Some v" by simp
    from Cons.IH [OF r this] False d' show ?thesis by simp
  qed
qed



lemma sample_pitch_cache: "cache (snd (sample_pitch E ds st uid)) = cache st"
  by (auto simp: sample_pitch_def Let_def split: sum.splits prod.splits)

lemma sample_aug_cache: "cache (snd (sample_aug E ds st uid)) = cache st"
  using sample_pitch_cache [of E ds st uid]
  by (auto simp: sample_aug_def split: sum.splits prod.splits)

lemma fetch_cache:
  "fetch E ds st uid = (r, st') \<Longrightarrow>
     (case r of Inl e \<Rightarrow> cache st' = cache st
      | Inr (u, dat) \<Rightarrow> u = uid \<and> cache st' = store E ds (cache st) uid dat)"
  using sample_aug_cache [of E ds st uid]
  by (auto simp: fetch_def split: sum.splits prod.splits)

lemma fetch_identity:
  assumes "mode ds \<noteq> ''train''" and "fetch E ds st uid = (Inr (u, dat), st')"
  shows "dict_get dat ''pitch_aug'' = Inr (VArray \<lparr>kind = KInt, dtype = int_dtype ds, cells = [CInt 0]\<rparr>) \<and>
         dict_get dat ''time_aug'' = Inr (VArray \<lparr>kind = KInt, dtype = int_dtype ds, cells = [CInt 1]\<rparr>)"
proof -
  from assms obtain aligned where
    f: "force_precision ds (attach aligned 0 (PyInt 1)) = Inr dat"
    by (auto simp: fetch_def sample_aug_def split: sum.splits prod.splits)
  have p: "map_of (attach aligned 0 (PyInt 1)) ''pitch_aug'' = Some (VArray (np_array1 (PyInt 0)))"
    by (simp add: attach_def update_conv')
  have t: "map_of (attach aligned 0 (PyInt 1)) ''time_aug'' = Some (VArray (np_array1 (PyInt 1)))"
    by (simp add: attach_def update_conv')
  from force_precision_map_of [OF f p] force_precision_map_of [OF f t]
  show ?thesis
    by (auto simp: dict_get_def force_value_def np_array1_def astype_def)
qed

lemma store_cached:
  "cached (st\<lparr>cache := store E ds (cache st) uid dat\<rparr>) k = Some d \<Longrightarrow>
     cached st k = Some d \<or> d = dat"
  by (auto simp: cached_def store_def sized_dict_set_def update_conv' split: option.splits if_splits)

lemma cached_cong: "cache st' = cache st \<Longrightarrow> cached st' k = cached st k"
  by (simp add: cached_def)

lemma getitem_inv:
  assumes inv: "\<forall>k d. cached st k = Some d \<longrightarrow> P d"
    and new: "\<forall>s uid u dat s'. fetch E ds s uid = (Inr (u, dat), s') \<longrightarrow> P dat"
    and g: "getitem E ds st u = (r, st')"
  shows "(\<forall>k d. cached st' k = Some d \<longrightarrow> P d) \<and> (\<forall>u' dat. r = Inr (u', dat) \<longrightarrow> P dat)"
proof (cases "resolve_uid ds u")
  case (Inl e)
  with g inv show ?thesis by (auto simp: getitem_def)
next
  case (Inr uid)
  show ?thesis
  proof (cases "cached st uid")
    case (Some dat)
    with g Inr inv show ?thesis by (auto simp: getitem_def)
  next
    case None
    with g Inr have f: "fetch E ds st uid = (r, st')" by (simp add: getitem_def)
    show ?thesis
    proof (cases r)
      case (Inl e)
      with fetch_cache [OF f] have "cache st' = cache st" by simp
      from cached_cong [OF this] inv Inl show ?thesis by auto
    next
      case (Inr ud)
      obtain u' dat where ud: "ud = (u', dat)" by (cases ud)
      from fetch_cache [OF f] Inr ud have c: "cache st' = store E ds (cache st) uid dat" by simp
      from f Inr ud have pd: "P dat" using new by blast
      have "cached st' k = Some d \<Longrightarrow> P d" for k d
      proof -
        assume a: "cached st' k = Some d"
        have "cached st' k = cached (st\<lparr>cache := store E ds (cache st) uid dat\<rparr>) k"
          using c by (simp add: cached_def)
        with a have "cached (st\<lparr>cache := store E ds (cache st) uid dat\<rparr>) k = Some d" by simp
        from store_cached [OF this] have "cached st k = Some d \<or> d = dat" .
        with inv pd show "P d" by blast
      qed
      with pd Inr ud show ?thesis by auto
    qed
  qed
qed

lemma run_inv:
  assumes new: "\<forall>s uid u dat s'. fetch E ds s uid = (Inr (u, dat), s') \<longrightarrow> P dat"
  shows "\<forall>k d. cached st k = Some d \<longrightarrow> P d \<Longrightarrow>
         Inr (u, dat) \<in> set (fst (run E ds st us)) \<Longrightarrow> P dat"
proof (induction us arbitrary: st)
  case Nil
  then show ?case by simp
next
  case (Cons x us)
  obtain r st1 where g: "getitem E ds st x = (r, st1)" by (cases "getitem E ds st x")
  obtain rs st2 where rr: "run E ds st1 us = (rs, st2)" by (cases "run E ds st1 us")
  from getitem_inv [where P = P, OF Cons.prems(1) new g]
  have i1: "\<forall>k d. cached st1 k = Some d \<longrightarrow> P d" and i2: "\<forall>u' dat. r = Inr (u', dat) \<longrightarrow> P dat"
    by blast+
  from Cons.prems(2) g rr have "Inr (u, dat) = r \<or> Inr (u, dat) \<in> set (fst (run E ds st1 us))" by auto
  then show ?case
  proof
    assume "Inr (u, dat) = r" with i2 show ?thesis by metis
  next
    assume "Inr (u, dat) \<in> set (fst (run E ds st1 us))"
    from Cons.IH [OF i1 this] show ?thesis .
  qed
qed

lemma init_state_cached: "cached (init_state ds g) k = None"
  by (simp add: cached_def init_state_def sized_dict_empty_def)

text \<open>
  C3. Outside training mode every record a dataset returns, fetched or taken from its
  cache, carries pitch_aug = [0] and time_aug = [1], whatever the bounds and the random
  numbers.
\<close>

theorem identity_augmentation_outside_training:
  assumes "mode ds \<noteq> ''train''"
    and "Inr (u, dat) \<in> set (fst (run E ds (init_state ds g) us))"
  shows "dict_get dat ''pitch_aug'' = Inr (VArray \<lparr>kind = KInt, dtype = int_dtype ds, cells = [CInt 0]\<rparr>) \<and>
         dict_get dat ''time_aug'' = Inr (VArray \<lparr>kind = KInt, dtype = int_dtype ds, cells = [CInt 1]\<rparr>)"
proof -
  let ?P = "\<lambda>d. dict_get d ''pitch_aug'' = Inr (VArray \<lparr>kind = KInt, dtype = int_dtype ds, cells = [CInt 0]\<rparr>) \<and>
         dict_get d ''time_aug'' = Inr (VArray \<lparr>kind = KInt, dtype = int_dtype ds, cells = [CInt 1]\<rparr>)"
  have new: "\<forall>s uid u dat s'. fetch E ds s uid = (Inr (u, dat), s') \<longrightarrow> ?P dat"
    using fetch_identity [OF assms(1)] by blast
  have start: "\<forall>k d. cached (init_state ds g) k = Some d \<longrightarrow> ?P d"
    by (simp add: init_state_cached)
  from run_inv [where P = ?P, OF new start assms(2)] show ?thesis .
qed


lemma feats_fetch:
  "fetch ex_env (feats_ds ''score'' ''valid'') (init_state (feats_ds ''score'' ''valid'') g) ''u1'' =
     (Inr (''u1'', feats_record),
      \<lparr>cache = Some \<lparr>entries = [(''u1'', feats_record)], size_sd = 1\<rparr>,
       rates = (\<lambda>_. None), rng = g\<rparr>)"
  by (simp add: fetch_defs feats_ds_def ex_defs feats_record_def long_array_def)

lemma feats_getitem:
  "getitem ex_env (feats_ds ''score'' ''valid'') (init_state (feats_ds ''score'' ''valid'') g)
     (UStr ''u1'') =
     (Inr (''u1'', feats_record),
      \<lparr>cache = Some \<lparr>entries = [(''u1'', feats_record)], size_sd = 1\<rparr>,
       rates = (\<lambda>_. None), rng = g\<rparr>)"
  by (simp add: getitem_def resolve_uid_def init_state_cached feats_fetch)

theorem identity_augmentation_outside_training_witness:
  "mode (feats_ds ''score'' ''valid'') \<noteq> ''train'' \<and>
   Inr (''u1'', feats_record) \<in> set (fst (run ex_env (feats_ds ''score'' ''valid'')
     (init_state (feats_ds ''score'' ''valid'') (sconst 0)) [UStr ''u1''])) \<and>
   dict_get feats_record ''pitch_aug'' =
     Inr (VArray \<lparr>kind = KInt, dtype = ''long'', cells = [CInt 0]\<rparr>) \<and>
   dict_get feats_record ''time_aug'' =
     Inr (VArray \<lparr>kind = KInt, dtype = ''long'', cells = [CInt 1]\<rparr>)"
proof -
  have m: "mode (feats_ds ''score'' ''valid'') \<noteq> ''train''"
    by (simp add: feats_ds_def ex_ds_def)
  have r: "Inr (''u1'', feats_record) \<in> set (fst (run ex_env (feats_ds ''score'' ''valid'')
     (init_state (feats_ds ''score'' ''valid'') (sconst 0)) [UStr ''u1'']))"
    by (simp add: feats_getitem)
  have i: "int_dtype (feats_ds ''score'' ''valid'') = ''long''"
    by (simp add: feats_ds_def ex_ds_def)
  from identity_augmentation_outside_training [OF m r] m r i show ?thesis by simp
qed


section \<open>The cache\<close>

lemma getitem_keeps_cached:
  assumes c: "cached st uid = Some dat" and g: "getitem E ds st u = (r, st')"
  shows "cached st' uid = Some dat"
proof (cases "resolve_uid ds u")
  case (Inl e)
  with g c show ?thesis by (auto simp: getitem_def)
next
  case (Inr uid')
  show ?thesis
  proof (cases "cached st uid'")
    case (Some d)
    with g Inr c show ?thesis by (auto simp: getitem_def)
  next
    case None
    with c have ne: "uid \<noteq> uid'" by auto
    from None g Inr have f: "fetch E ds st uid' = (r, st')" by (simp add: getitem_def)
    show ?thesis
    proof (cases r)
      case (Inl e)
      with fetch_cache [OF f] have "cache st' = cache st" by simp
      from cached_cong [OF this] c show ?thesis by simp
    next
      case (Inr ud)
      obtain u' d where ud: "ud = (u', d)" by (cases ud)
      from fetch_cache [OF f] Inr ud have "cache st' = store E ds (cache st) uid' d" by simp
      with c ne show ?thesis
        by (auto simp: cached_def store_def sized_dict_set_def update_conv' split: option.splits)
    qed
  qed
qed

lemma run_keeps_cached:
  "cached st uid = Some dat \<Longrightarrow> cached (snd (run E ds st us)) uid = Some dat"
proof (induction us arbitrary: st)
  case Nil
  then show ?case by simp
next
  case (Cons x us)
  obtain r st1 where g: "getitem E ds st x = (r, st1)" by (cases "getitem E ds st x")
  from getitem_keeps_cached [OF Cons.prems g] have "cached st1 uid = Some dat" .
  from Cons.IH [OF this] g show ?case by (cases "run E ds st1 us") simp
qed

text \<open>
  C10. When the requested id is in the cache, \<^verbatim>\<open>__getitem__\<close> returns the cached record and
  leaves the state as it was: no random number is drawn, no loader is asked and nothing
  is stored. A stored record stays, so that after any further fetches, in training mode
  too, the id still gives the record that was cached, with its pitch_aug and time_aug.
  The record that a fetch returns is the one it stores when the cache admits it.
\<close>

theorem cache_hit_returns_cached:
  "(cached st uid = Some dat \<and> resolve_uid ds u = Inr uid \<longrightarrow>
      getitem E ds (snd (run E ds st us)) u = (Inr (uid, dat), snd (run E ds st us))) \<and>
   (fetch E ds st uid = (Inr (uid, dat), st') \<and> cache st = Some sd \<and>
    of_nat (size_sd sd) < max_cache_size ds \<longrightarrow> cached st' uid = Some dat)"
proof (intro conjI impI)
  assume h: "cached st uid = Some dat \<and> resolve_uid ds u = Inr uid"
  then have "cached (snd (run E ds st us)) uid = Some dat" by (simp add: run_keeps_cached)
  with h show "getitem E ds (snd (run E ds st us)) u = (Inr (uid, dat), snd (run E ds st us))"
    by (simp add: getitem_def)
next
  assume h: "fetch E ds st uid = (Inr (uid, dat), st') \<and> cache st = Some sd \<and>
    of_nat (size_sd sd) < max_cache_size ds"
  then have f: "fetch E ds st uid = (Inr (uid, dat), st')" by simp
  from fetch_cache [OF f] have "cache st' = store E ds (cache st) uid dat" by simp
  with h show "cached st' uid = Some dat"
    by (simp add: cached_def store_def sized_dict_set_def update_conv')
qed

theorem cache_hit_returns_cached_witness:
  "cached \<lparr>cache = Some \<lparr>entries = [(''u1'', feats_record)], size_sd = 1\<rparr>,
           rates = (\<lambda>_. None), rng = sconst 0\<rparr> ''u1'' = Some feats_record \<and>
   resolve_uid (feats_ds ''score'' ''train'') (UStr ''u1'') = Inr ''u1'' \<and>
   getitem ex_env (feats_ds ''score'' ''train'')
     (snd (run ex_env (feats_ds ''score'' ''train'')
        \<lparr>cache = Some \<lparr>entries = [(''u1'', feats_record)], size_sd = 1\<rparr>,
         rates = (\<lambda>_. None), rng = sconst 0\<rparr> [UStr ''u1'', UStr ''u1''])) (UStr ''u1'') =
     (Inr (''u1'', feats_record),
      snd (run ex_env (feats_ds ''score'' ''train'')
        \<lparr>cache = Some \<lparr>entries = [(''u1'', feats_record)], size_sd = 1\<rparr>,
         rates = (\<lambda>_. None), rng = sconst 0\<rparr> [UStr ''u1'', UStr ''u1''])) \<and>
   fetch ex_env (feats_ds ''score'' ''valid'') (init_state (feats_ds ''score'' ''valid'') (sconst 0)) ''u1'' =
     (Inr (''u1'', feats_record),
      \<lparr>cache = Some \<lparr>entries = [(''u1'', feats_record)], size_sd = 1\<rparr>,
       rates = (\<lambda>_. None), rng = sconst 0\<rparr>) \<and>
   cached \<lparr>cache = Some \<lparr>entries = [(''u1'', feats_record)], size_sd = 1\<rparr>,
           rates = (\<lambda>_. None), rng = sconst 0\<rparr> ''u1'' = Some feats_record"
proof -
  let ?st = "\<lparr>cache = Some \<lparr>entries = [(''u1'', feats_record)], size_sd = 1\<rparr>,
              rates = (\<lambda>_. None), rng = sconst 0\<rparr>"
  have c: "cached ?st ''u1'' = Some feats_record" by (simp add: cached_def)
  have r: "resolve_uid (feats_ds ''score'' ''train'') (UStr ''u1'') = Inr ''u1''"
    by (simp add: resolve_uid_def)
  have i: "cache (init_state (feats_ds ''score'' ''valid'') (sconst 0)) = Some sized_dict_empty \<and>
      of_nat (size_sd sized_dict_empty) < max_cache_size (feats_ds ''score'' ''valid'')"
    by (simp add: init_state_def feats_ds_def ex_ds_def sized_dict_empty_def)
  from cache_hit_returns_cached [of ?st "''u1''" feats_record "feats_ds ''score'' ''train''" "UStr ''u1''"
      ex_env "[UStr ''u1'', UStr ''u1'']"] c r
  have one: "getitem ex_env (feats_ds ''score'' ''train'')
     (snd (run ex_env (feats_ds ''score'' ''train'') ?st [UStr ''u1'', UStr ''u1''])) (UStr ''u1'') =
     (Inr (''u1'', feats_record),
      snd (run ex_env (feats_ds ''score'' ''train'') ?st [UStr ''u1'', UStr ''u1'']))"
    by blast
  from cache_hit_returns_cached [of "init_state (feats_ds ''score'' ''valid'') (sconst 0)" "''u1''"
      feats_record "feats_ds ''score'' ''valid''" "UStr ''u1''" ex_env "[]" ?st sized_dict_empty]
    feats_fetch [of "sconst 0"] i
  have two: "cached ?st ''u1'' = Some feats_record" by blast
  from c r one two feats_fetch [of "sconst 0"] show ?thesis by simp
qed

section \<open>Alignment\<close>


























section \<open>What the loaders are asked\<close>









section \<open>The pitch factor\<close>





lemma sample_pitch_mean:
  assumes "pitch_mean ds \<noteq> ''None''" and "fst (sample_pitch E ds st uid) = Inr p"
  shows "\<exists>loader val gap.
           dict_get (loader_dict ds) ''midi'' = Inr loader \<and>
           fst (loader_getitem E loader (rates st ''midi'')
                  (KTriple (AStr uid) (ANum (PyInt 0)) (ANum (PyInt 1)))) = Inr val \<and>
           pitch_gap E ds val uid = Inr gap \<and> p \<in> set (gap_list gap)"
  using assms
  by (auto simp: sample_pitch_def sample1_def Let_def split: sum.splits prod.splits if_splits)






end
